theory Spec2Isabelle
  imports Complex_Main
begin

section \<open>Documents and collections\<close>

text \<open>
  The server (\<^verbatim>\<open>src/index.js\<close>) keeps its state in MongoDB collections:
  \<^verbatim>\<open>usersCol\<close>, \<^verbatim>\<open>assetsCol\<close> and \<^verbatim>\<open>requestsCol\<close>. A collection is modelled as
  an association list from \<^verbatim>\<open>_id\<close> to document, in insertion order. An
  \<^verbatim>\<open>ObjectId\<close> is a natural number, a \<^verbatim>\<open>Date\<close> is a natural number
  (the value of \<^verbatim>\<open>new Date()\<close> is an input of each handler). JSON strings are
  strings; a field that may be \<^verbatim>\<open>undefined\<close> or \<^verbatim>\<open>null\<close> is an option.
\<close>

type_synonym oid = nat
type_synonym time = nat

text \<open>
  A quantity is a JavaScript number, the result of \<^verbatim>\<open>Number(productQuantity)\<close>: it
  need not be whole, and may be \<^verbatim>\<open>NaN\<close> or infinite. A finite number is modelled by
  the rational it denotes; the rounding of doubles is not modelled (adding or subtracting
  1 is exact on whole numbers of magnitude up to \<open>2^53\<close>). \<open>js_add\<close> is the sum with a finite
  number, as \<^verbatim>\<open>$inc\<close> computes it; \<open>js_le\<close> and \<open>js_less\<close> are \<^verbatim>\<open><=\<close> and
  \<^verbatim>\<open><\<close>, false on \<^verbatim>\<open>NaN\<close>.
\<close>

datatype jsnum = NaN | NegInf | Num rat | PosInf

fun js_add :: "jsnum \<Rightarrow> rat \<Rightarrow> jsnum" where
  "js_add NaN k = NaN"
| "js_add NegInf k = NegInf"
| "js_add (Num q) k = Num (q + k)"
| "js_add PosInf k = PosInf"

fun js_le :: "jsnum \<Rightarrow> jsnum \<Rightarrow> bool" where
  "js_le NaN y = False"
| "js_le x NaN = False"
| "js_le NegInf y = True"
| "js_le x PosInf = True"
| "js_le (Num p) (Num q) = (p \<le> q)"
| "js_le x y = False"

fun js_less :: "jsnum \<Rightarrow> jsnum \<Rightarrow> bool" where
  "js_less NaN y = False"
| "js_less x NaN = False"
| "js_less (Num p) (Num q) = (p < q)"
| "js_less NegInf NegInf = False"
| "js_less NegInf y = True"
| "js_less PosInf y = False"
| "js_less x PosInf = True"
| "js_less x y = False"

record asset =
  productName :: string
  productImage :: string
  productType :: string
  productQuantity :: jsnum
  availableQuantity :: jsnum
  dateAdded :: time
  asset_hrEmail :: "string option"
  asset_companyName :: string

record request =
  assetId :: "oid option"
  assetName :: "string option"
  assetType :: "string option"
  hrEmail :: "string option"
  companyName :: string
  requesterName :: "string option"
  requesterEmail :: string
  assetImage :: "string option"
  requestDate :: time
  approvalDate :: "time option"
  requestStatus :: string
  note_text :: string
  processedBy :: "string option"
  returnDate :: "time option"

text \<open>Of a user document only the fields that the team query reads or projects.\<close>

record user =
  name :: string
  email :: string
  role :: string
  profileImage :: "string option"
  dateOfBirth :: "string option"
  position :: "string option"

type_synonym 'a collection = "(oid \<times> 'a) list"

record db =
  usersCol :: "user collection"
  assetsCol :: "asset collection"
  requestsCol :: "request collection"

text \<open>\<^verbatim>\<open>col.findOne({ _id })\<close>: the first document with that id, or null.\<close>

definition findOne :: "'a collection \<Rightarrow> oid \<Rightarrow> 'a option" where
  "findOne col i = map_of col i"

text \<open>
  \<^verbatim>\<open>col.updateOne({ _id }, u)\<close>: applies the update to the first document with
  that id; a collection with no such document is left as it is (no error is raised,
  \<^verbatim>\<open>matchedCount\<close> is 0).
\<close>

fun updateOne :: "'a collection \<Rightarrow> oid \<Rightarrow> ('a \<Rightarrow> 'a) \<Rightarrow> 'a collection" where
  "updateOne [] i u = []"
| "updateOne ((j, x) # col) i u =
     (if j = i then (j, u x) # col else (j, x) # updateOne col i u)"

definition matchedCount :: "'a collection \<Rightarrow> oid \<Rightarrow> nat" where
  "matchedCount col i = (case findOne col i of None \<Rightarrow> 0 | Some _ \<Rightarrow> 1)"

text \<open>\<^verbatim>\<open>col.deleteOne({ _id })\<close>: removes the first document with that id.\<close>

fun deleteOne :: "'a collection \<Rightarrow> oid \<Rightarrow> 'a collection" where
  "deleteOne [] i = []"
| "deleteOne ((j, x) # col) i = (if j = i then col else (j, x) # deleteOne col i)"

text \<open>
  \<^verbatim>\<open>col.insertOne(doc)\<close>: the driver generates the \<^verbatim>\<open>_id\<close> (an input of the
  model); the server rejects a duplicate key, which the handler sees as an exception.
\<close>

definition insertOne :: "'a collection \<Rightarrow> oid \<Rightarrow> 'a \<Rightarrow> 'a collection option" where
  "insertOne col i x = (if i \<in> fst ` set col then None else Some (col @ [(i, x)]))"

text \<open>\<^verbatim>\<open>col.find(filter).toArray()\<close>: the matching documents, in collection order.\<close>

definition find_docs :: "'a collection \<Rightarrow> ('a \<Rightarrow> bool) \<Rightarrow> 'a list" where
  "find_docs col P = filter P (map snd col)"

section \<open>Replies and storage faults\<close>

text \<open>
  A handler answers with a status code and a message (\<^verbatim>\<open>res.status(n).send({ msg })\<close>);
  the two creating handlers also send the inserted id. Every handler body is wrapped in
  \<^verbatim>\<open>try { ... } catch (err) { res.status(500).send({ msg: 'Server Error', ... }) }\<close>.
\<close>

datatype reply =
  Reply (status: nat) (msg: string)
| Inserted (status: nat) (msg: string) (insertedId: oid)

definition server_error :: reply where
  "server_error = Reply 500 ''Server Error''"

text \<open>
  An awaited driver call may reject (the storage is unreachable); the exception reaches
  the handler's \<^verbatim>\<open>catch\<close>. A fault names the call of the current handler that
  rejects, without effect on the store; \<open>None\<close> is a run where no call rejects.
\<close>

datatype dbcall =
  RequestsFindOne | RequestsUpdateOne | RequestsInsertOne | RequestsFind
| AssetsUpdateOne | AssetsInsertOne | AssetsDeleteOne
| UsersFind

type_synonym fault = "dbcall option"

text \<open>
  The path parameter \<^verbatim>\<open>:id\<close> is given to \<^verbatim>\<open>new ObjectId(id)\<close>, which throws on
  a string that is no object id: the parameter is \<open>None\<close> then, and \<open>Some i\<close> when it
  denotes the id \<open>i\<close>.
\<close>

section \<open>Approving a request\<close>

text \<open>\<^verbatim>\<open>app.patch('/hr/requests/:id/approve', ...)\<close>, lines 565 to 602.\<close>

definition approve_request :: "fault \<Rightarrow> time \<Rightarrow> oid option \<Rightarrow> db \<Rightarrow> db \<times> reply" where
  "approve_request flt now idp d =
     (case idp of
        None \<Rightarrow> (d, server_error)
      | Some rid \<Rightarrow>
          if flt = Some RequestsFindOne then (d, server_error)
          else
            (case findOne (requestsCol d) rid of
               None \<Rightarrow> (d, Reply 404 ''Request not found'')
             | Some request \<Rightarrow>
                 if requestStatus request \<noteq> ''pending''
                 then (d, Reply 400 ''Request already processed'')
                 else
                   (case
                      (case assetId request of
                         None \<Rightarrow> Some d
                       | Some aid \<Rightarrow>
                           if flt = Some AssetsUpdateOne then None
                           else Some (d\<lparr>assetsCol :=
                                  updateOne (assetsCol d) aid
                                    (\<lambda>a. a\<lparr>availableQuantity := js_add (availableQuantity a) (- 1)\<rparr>)\<rparr>))
                    of
                      None \<Rightarrow> (d, server_error)
                    | Some d1 \<Rightarrow>
                        if flt = Some RequestsUpdateOne then (d1, server_error)
                        else
                          (d1\<lparr>requestsCol :=
                               updateOne (requestsCol d1) rid
                                 (\<lambda>r. r\<lparr>requestStatus := ''approved'',
                                         approvalDate := Some now,
                                         processedBy := Some ''HR''\<rparr>)\<rparr>,
                           Reply 200 ''Request approved''))))"

section \<open>Rejecting a request\<close>

text \<open>\<^verbatim>\<open>app.patch('/hr/requests/:id/reject', ...)\<close>, lines 605 to 633.\<close>

definition reject_request :: "fault \<Rightarrow> time \<Rightarrow> oid option \<Rightarrow> db \<Rightarrow> db \<times> reply" where
  "reject_request flt now idp d =
     (case idp of
        None \<Rightarrow> (d, server_error)
      | Some rid \<Rightarrow>
          if flt = Some RequestsFindOne then (d, server_error)
          else
            (case findOne (requestsCol d) rid of
               None \<Rightarrow> (d, Reply 404 ''Request not found'')
             | Some request \<Rightarrow>
                 if requestStatus request \<noteq> ''pending''
                 then (d, Reply 400 ''Request already processed'')
                 else if flt = Some RequestsUpdateOne then (d, server_error)
                 else
                   (d\<lparr>requestsCol :=
                        updateOne (requestsCol d) rid
                          (\<lambda>r. r\<lparr>requestStatus := ''rejected'',
                                  approvalDate := Some now,
                                  processedBy := Some ''HR''\<rparr>)\<rparr>,
                    Reply 200 ''Request rejected'')))"

section \<open>Returning an asset\<close>

text \<open>\<^verbatim>\<open>app.patch('/employee/requests/:id/return', ...)\<close>, lines 449 to 489.\<close>

definition return_asset :: "fault \<Rightarrow> time \<Rightarrow> oid option \<Rightarrow> db \<Rightarrow> db \<times> reply" where
  "return_asset flt now idp d =
     (case idp of
        None \<Rightarrow> (d, server_error)
      | Some rid \<Rightarrow>
          if flt = Some RequestsFindOne then (d, server_error)
          else
            (case findOne (requestsCol d) rid of
               None \<Rightarrow> (d, Reply 404 ''Request not found'')
             | Some request \<Rightarrow>
                 if requestStatus request \<noteq> ''approved''
                 then (d, Reply 400 ''Only approved requests can be returned'')
                 else if assetType request \<noteq> Some ''Returnable''
                 then (d, Reply 400 ''Only returnable assets can be returned'')
                 else if flt = Some RequestsUpdateOne then (d, server_error)
                 else
                   (let d1 = d\<lparr>requestsCol :=
                               updateOne (requestsCol d) rid
                                 (\<lambda>r. r\<lparr>requestStatus := ''returned'',
                                         returnDate := Some now\<rparr>)\<rparr>
                    in case assetId request of
                         None \<Rightarrow> (d1, Reply 200 ''Asset returned'')
                       | Some aid \<Rightarrow>
                           if flt = Some AssetsUpdateOne then (d1, server_error)
                           else
                             (d1\<lparr>assetsCol :=
                                  updateOne (assetsCol d1) aid
                                    (\<lambda>a. a\<lparr>availableQuantity := js_add (availableQuantity a) 1\<rparr>)\<rparr>,
                              Reply 200 ''Asset returned''))))"

section \<open>Request bodies\<close>

text \<open>
  A string field of a body is \<open>None\<close> when the client left it out. \<^verbatim>\<open>!x\<close> and
  \<^verbatim>\<open>x || dflt\<close> treat the empty string as absent.
\<close>

definition truthy :: "string option \<Rightarrow> bool" where
  "truthy x = (case x of None \<Rightarrow> False | Some s \<Rightarrow> s \<noteq> [])"

text \<open>
  The \<^verbatim>\<open>productQuantity\<close> of a body is any JSON value, or left out. The handlers
  observe it through \<^verbatim>\<open>!v\<close>, \<^verbatim>\<open>v !== undefined\<close> and \<^verbatim>\<open>Number(v)\<close>. The number
  that \<^verbatim>\<open>Number\<close> reads in a string, or makes of an array or object, is not computed
  here: such a value carries it.
\<close>

datatype jsvalue =
  JUndefined
| JNull
| JBool bool
| JNum jsnum
| JStr string jsnum
| JObj jsnum

fun truthy_value :: "jsvalue \<Rightarrow> bool" where
  "truthy_value JUndefined = False"
| "truthy_value JNull = False"
| "truthy_value (JBool b) = b"
| "truthy_value (JNum n) = (n \<noteq> NaN \<and> n \<noteq> Num 0)"
| "truthy_value (JStr s n) = (s \<noteq> [])"
| "truthy_value (JObj n) = True"

fun to_number :: "jsvalue \<Rightarrow> jsnum" where
  "to_number JUndefined = NaN"
| "to_number JNull = Num 0"
| "to_number (JBool b) = Num (if b then 1 else 0)"
| "to_number (JNum n) = n"
| "to_number (JStr s n) = n"
| "to_number (JObj n) = n"

definition or_null :: "string option \<Rightarrow> string option" where
  "or_null x = (if truthy x then x else None)"

definition or_default :: "string option \<Rightarrow> string \<Rightarrow> string" where
  "or_default x dflt = (case x of None \<Rightarrow> dflt | Some s \<Rightarrow> if s \<noteq> [] then s else dflt)"

text \<open>
  The \<^verbatim>\<open>assetId\<close> of a request body: left out (or empty), a string that
  \<^verbatim>\<open>new ObjectId\<close> rejects, or the id it denotes.
\<close>

datatype idparam = Missing | Malformed | Valid oid

record request_body =
  rb_assetId :: idparam
  rb_assetName :: "string option"
  rb_assetType :: "string option"
  rb_companyName :: "string option"
  rb_hrEmail :: "string option"
  rb_requesterName :: "string option"
  rb_requesterEmail :: "string option"
  rb_note :: "string option"
  rb_assetImage :: "string option"

record asset_body =
  ab_productName :: "string option"
  ab_productImage :: "string option"
  ab_productType :: "string option"
  ab_productQuantity :: jsvalue
  ab_hrEmail :: "string option"
  ab_companyName :: "string option"

section \<open>Creating a request\<close>

text \<open>\<^verbatim>\<open>app.post('/employee/requests', ...)\<close>, lines 385 to 431.\<close>

definition requestDoc :: "time \<Rightarrow> oid \<Rightarrow> request_body \<Rightarrow> request" where
  "requestDoc now aid body =
     \<lparr>assetId = Some aid,
      assetName = rb_assetName body,
      assetType = rb_assetType body,
      hrEmail = or_null (rb_hrEmail body),
      companyName = or_default (rb_companyName body) ''Unknown Company'',
      requesterName = rb_requesterName body,
      requesterEmail = or_default (rb_requesterEmail body) [],
      assetImage = or_null (rb_assetImage body),
      requestDate = now,
      approvalDate = None,
      requestStatus = ''pending'',
      note_text = or_default (rb_note body) [],
      processedBy = None,
      returnDate = None\<rparr>"

definition create_request :: "fault \<Rightarrow> time \<Rightarrow> oid \<Rightarrow> request_body \<Rightarrow> db \<Rightarrow> db \<times> reply" where
  "create_request flt now newId body d =
     (if rb_assetId body = Missing \<or> \<not> truthy (rb_requesterEmail body)
      then (d, Reply 400 ''assetId and requesterEmail are required'')
      else
        (case rb_assetId body of
           Missing \<Rightarrow> (d, Reply 400 ''assetId and requesterEmail are required'')
         | Malformed \<Rightarrow> (d, server_error)
         | Valid aid \<Rightarrow>
             if flt = Some RequestsInsertOne then (d, server_error)
             else
               (case insertOne (requestsCol d) newId (requestDoc now aid body) of
                  None \<Rightarrow> (d, server_error)
                | Some col \<Rightarrow>
                    (d\<lparr>requestsCol := col\<rparr>, Inserted 201 ''Request created'' newId))))"

section \<open>Assets: add, update, delete\<close>

text \<open>\<^verbatim>\<open>app.post('/hr/assets', ...)\<close>, lines 273 to 307.\<close>

definition add_asset :: "fault \<Rightarrow> time \<Rightarrow> oid \<Rightarrow> asset_body \<Rightarrow> db \<Rightarrow> db \<times> reply" where
  "add_asset flt now newId body d =
     (if \<not> truthy (ab_productName body) \<or> \<not> truthy (ab_productImage body) \<or>
         \<not> truthy (ab_productType body) \<or> \<not> truthy_value (ab_productQuantity body)
      then (d, Reply 400 ''All fields required'')
      else
        (let qty = to_number (ab_productQuantity body);
             asset = \<lparr>productName = or_default (ab_productName body) [],
                      productImage = or_default (ab_productImage body) [],
                      productType = or_default (ab_productType body) [],
                      productQuantity = qty,
                      availableQuantity = qty,
                      dateAdded = now,
                      asset_hrEmail = or_null (ab_hrEmail body),
                      asset_companyName = or_default (ab_companyName body) []\<rparr>
         in if flt = Some AssetsInsertOne then (d, server_error)
            else
              (case insertOne (assetsCol d) newId asset of
                 None \<Rightarrow> (d, server_error)
               | Some col \<Rightarrow> (d\<lparr>assetsCol := col\<rparr>, Inserted 201 ''Asset created'' newId))))"

text \<open>
  \<^verbatim>\<open>app.patch('/hr/assets/:id', ...)\<close>, lines 335 to 365. The \<^verbatim>\<open>$set\<close> document
  holds the name, image and type when they are non-empty, and both quantities when
  \<^verbatim>\<open>productQuantity !== undefined\<close> (a \<^verbatim>\<open>null\<close> counts). An empty \<^verbatim>\<open>$set\<close> is
  taken to change nothing.
\<close>

definition set_update :: "asset_body \<Rightarrow> asset \<Rightarrow> asset" where
  "set_update body a =
     (let a1 = (if truthy (ab_productName body)
                then a\<lparr>productName := or_default (ab_productName body) []\<rparr> else a);
          a2 = (if truthy (ab_productImage body)
                then a1\<lparr>productImage := or_default (ab_productImage body) []\<rparr> else a1);
          a3 = (if truthy (ab_productType body)
                then a2\<lparr>productType := or_default (ab_productType body) []\<rparr> else a2)
      in if ab_productQuantity body \<noteq> JUndefined
         then a3\<lparr>productQuantity := to_number (ab_productQuantity body),
                 availableQuantity := to_number (ab_productQuantity body)\<rparr>
         else a3)"

definition update_asset :: "fault \<Rightarrow> oid option \<Rightarrow> asset_body \<Rightarrow> db \<Rightarrow> db \<times> reply" where
  "update_asset flt idp body d =
     (case idp of
        None \<Rightarrow> (d, server_error)
      | Some aid \<Rightarrow>
          if flt = Some AssetsUpdateOne then (d, server_error)
          else
            (let d1 = d\<lparr>assetsCol := updateOne (assetsCol d) aid (set_update body)\<rparr>
             in if matchedCount (assetsCol d) aid = 0
                then (d1, Reply 404 ''Asset not found'')
                else (d1, Reply 200 ''Asset updated'')))"

text \<open>\<^verbatim>\<open>app.delete('/hr/assets/:id', ...)\<close>, lines 368 to 380.\<close>

definition delete_asset :: "fault \<Rightarrow> oid option \<Rightarrow> db \<Rightarrow> db \<times> reply" where
  "delete_asset flt idp d =
     (case idp of
        None \<Rightarrow> (d, server_error)
      | Some aid \<Rightarrow>
          if flt = Some AssetsDeleteOne then (d, server_error)
          else
            (let d1 = d\<lparr>assetsCol := deleteOne (assetsCol d) aid\<rparr>
             in if matchedCount (assetsCol d) aid = 0
                then (d1, Reply 404 ''Asset not found'')
                else (d1, Reply 200 ''Asset deleted'')))"

section \<open>The team of an employee\<close>

text \<open>
  \<^verbatim>\<open>app.get('/employee/my-team/:email', ...)\<close>, lines 494 to 546. A JavaScript
  \<^verbatim>\<open>Set\<close> keeps its elements in insertion order and ignores an element it already
  has; \<^verbatim>\<open>[...new Set(xs)]\<close> is the list of its elements.
\<close>

definition set_add :: "'a list \<Rightarrow> 'a \<Rightarrow> 'a list" where
  "set_add s x = (if x \<in> set s then s else s @ [x])"

definition new_Set :: "'a list \<Rightarrow> 'a list" where
  "new_Set xs = foldl set_add [] xs"

text \<open>The projection \<^verbatim>\<open>{ _id: 0, name: 1, email: 1, profileImage: 1, dateOfBirth: 1, position: 1 }\<close>.\<close>

record profile =
  p_name :: string
  p_email :: string
  p_profileImage :: "string option"
  p_dateOfBirth :: "string option"
  p_position :: "string option"

definition project :: "user \<Rightarrow> profile" where
  "project u =
     \<lparr>p_name = name u, p_email = email u, p_profileImage = profileImage u,
      p_dateOfBirth = dateOfBirth u, p_position = position u\<rparr>"

record team =
  team_companyName :: string
  colleagues :: "profile list"

text \<open>
  The loop \<^verbatim>\<open>for (const companyName of companySet)\<close>, with the teams pushed so
  far. The fault \<open>RequestsFind\<close> is the handler's first \<^verbatim>\<open>requestsCol.find\<close>.
\<close>

fun team_loop :: "fault \<Rightarrow> db \<Rightarrow> string list \<Rightarrow> team list \<Rightarrow> reply + team list" where
  "team_loop flt d [] teams = Inr teams"
| "team_loop flt d (c # cs) teams =
     (let companyReqs =
            find_docs (requestsCol d) (\<lambda>r. companyName r = c \<and> requestStatus r = ''approved'')
      in if length companyReqs = 0 then team_loop flt d cs teams
         else
           (let emails = new_Set (map requesterEmail companyReqs)
            in if flt = Some UsersFind then Inl server_error
               else
                 (let cols = map project (find_docs (usersCol d) (\<lambda>u. email u \<in> set emails))
                  in team_loop flt d cs
                       (teams @ [\<lparr>team_companyName = c, colleagues = cols\<rparr>]))))"

definition my_team :: "fault \<Rightarrow> string \<Rightarrow> db \<Rightarrow> reply + team list" where
  "my_team flt em d =
     (if flt = Some RequestsFind then Inl server_error
      else
        (let myApproved =
               find_docs (requestsCol d)
                 (\<lambda>r. requesterEmail r = em \<and> requestStatus r = ''approved'')
         in if length myApproved = 0 then Inr []
            else
              (let companySet =
                     new_Set (map (\<lambda>req. if companyName req \<noteq> [] then companyName req
                                          else ''Unknown Company'') myApproved)
               in team_loop flt d companySet [])))"

section \<open>Approval as a sequence of awaited calls\<close>

text \<open>
  The approve handler awaits three driver calls: the \<^verbatim>\<open>findOne\<close> of the request,
  the \<^verbatim>\<open>updateOne\<close> of the asset and the \<^verbatim>\<open>updateOne\<close> of the request. Each
  call is atomic on the store, and another handler may run between two of them. A call
  in progress is at one of these points; \<open>approve_step\<close> runs it to the next (with no
  storage fault).
\<close>

datatype approve_pc =
  Loading "oid option"
| Decrementing oid request
| Setting oid
| Replied reply

definition approve_step :: "time \<Rightarrow> approve_pc \<Rightarrow> db \<Rightarrow> approve_pc \<times> db" where
  "approve_step now pc d =
     (case pc of
        Loading idp \<Rightarrow>
          (case idp of
             None \<Rightarrow> (Replied server_error, d)
           | Some rid \<Rightarrow>
               (case findOne (requestsCol d) rid of
                  None \<Rightarrow> (Replied (Reply 404 ''Request not found''), d)
                | Some request \<Rightarrow>
                    if requestStatus request \<noteq> ''pending''
                    then (Replied (Reply 400 ''Request already processed''), d)
                    else (Decrementing rid request, d)))
      | Decrementing rid request \<Rightarrow>
          (Setting rid,
           case assetId request of
             None \<Rightarrow> d
           | Some aid \<Rightarrow>
               d\<lparr>assetsCol :=
                    updateOne (assetsCol d) aid
                      (\<lambda>a. a\<lparr>availableQuantity := js_add (availableQuantity a) (- 1)\<rparr>)\<rparr>)
      | Setting rid \<Rightarrow>
          (Replied (Reply 200 ''Request approved''),
           d\<lparr>requestsCol :=
                updateOne (requestsCol d) rid
                  (\<lambda>r. r\<lparr>requestStatus := ''approved'',
                          approvalDate := Some now,
                          processedBy := Some ''HR''\<rparr>)\<rparr>)
      | Replied r \<Rightarrow> (Replied r, d))"


section \<open>Return as a sequence of awaited calls\<close>

text \<open>
  The return handler awaits the \<^verbatim>\<open>findOne\<close> of the request, the \<^verbatim>\<open>updateOne\<close> of
  the request and the \<^verbatim>\<open>updateOne\<close> of the asset, in this order; \<open>return_step\<close> runs
  a call in progress to its next point (with no storage fault).
\<close>

datatype return_pc =
  Ret_Loading "oid option"
| Ret_Setting oid request
| Ret_Incrementing request
| Ret_Replied reply

definition return_step :: "time \<Rightarrow> return_pc \<Rightarrow> db \<Rightarrow> return_pc \<times> db" where
  "return_step now pc d =
     (case pc of
        Ret_Loading idp \<Rightarrow>
          (case idp of
             None \<Rightarrow> (Ret_Replied server_error, d)
           | Some rid \<Rightarrow>
               (case findOne (requestsCol d) rid of
                  None \<Rightarrow> (Ret_Replied (Reply 404 ''Request not found''), d)
                | Some request \<Rightarrow>
                    if requestStatus request \<noteq> ''approved''
                    then (Ret_Replied (Reply 400 ''Only approved requests can be returned''), d)
                    else if assetType request \<noteq> Some ''Returnable''
                    then (Ret_Replied (Reply 400 ''Only returnable assets can be returned''), d)
                    else (Ret_Setting rid request, d)))
      | Ret_Setting rid request \<Rightarrow>
          (Ret_Incrementing request,
           d\<lparr>requestsCol :=
                updateOne (requestsCol d) rid
                  (\<lambda>r. r\<lparr>requestStatus := ''returned'', returnDate := Some now\<rparr>)\<rparr>)
      | Ret_Incrementing request \<Rightarrow>
          (Ret_Replied (Reply 200 ''Asset returned''),
           case assetId request of
             None \<Rightarrow> d
           | Some aid \<Rightarrow>
               d\<lparr>assetsCol :=
                    updateOne (assetsCol d) aid
                      (\<lambda>a. a\<lparr>availableQuantity := js_add (availableQuantity a) 1\<rparr>)\<rparr>)
      | Ret_Replied r \<Rightarrow> (Ret_Replied r, d))"


section \<open>Sequences of operations\<close>

datatype op =
  AddAsset time oid asset_body
| UpdateAsset "oid option" asset_body
| DeleteAsset "oid option"
| CreateRequest time oid request_body
| Approve time "oid option"
| Reject time "oid option"
| Return time "oid option"

fun exec :: "fault \<times> op \<Rightarrow> db \<Rightarrow> db" where
  "exec (flt, AddAsset now newId body) d = fst (add_asset flt now newId body d)"
| "exec (flt, UpdateAsset idp body) d = fst (update_asset flt idp body d)"
| "exec (flt, DeleteAsset idp) d = fst (delete_asset flt idp d)"
| "exec (flt, CreateRequest now newId body) d = fst (create_request flt now newId body d)"
| "exec (flt, Approve now idp) d = fst (approve_request flt now idp d)"
| "exec (flt, Reject now idp) d = fst (reject_request flt now idp d)"
| "exec (flt, Return now idp) d = fst (return_asset flt now idp d)"

fun run :: "(fault \<times> op) list \<Rightarrow> db \<Rightarrow> db" where
  "run [] d = d"
| "run (x # xs) d = run xs (exec x d)"

text \<open>The inventory invariant of the data model, over every asset of the store.\<close>

definition qty_inv :: "db \<Rightarrow> bool" where
  "qty_inv d =
     list_all
       (\<lambda>(i, a). js_le (Num 0) (availableQuantity a) \<and>
                 js_le (availableQuantity a) (productQuantity a))
       (assetsCol d)"

text \<open>
  A whole number of magnitude below \<open>2^53\<close> (\<^verbatim>\<open>Number.isSafeInteger\<close>), and the
  stores in which every quantity is one.
\<close>

definition whole_number :: "jsnum \<Rightarrow> bool" where
  "whole_number n =
     (case n of
        Num q \<Rightarrow> of_int \<lfloor>q\<rfloor> = q \<and> - 9007199254740991 \<le> q \<and> q \<le> 9007199254740991
      | _ \<Rightarrow> False)"

definition whole_quantities :: "db \<Rightarrow> bool" where
  "whole_quantities d =
     list_all (\<lambda>(i, a). whole_number (availableQuantity a) \<and> whole_number (productQuantity a))
       (assetsCol d)"

text \<open>An asset whose two quantities are whole and satisfy the invariant.\<close>

definition stock_ok :: "asset \<Rightarrow> bool" where
  "stock_ok a =
     (whole_number (availableQuantity a) \<and> whole_number (productQuantity a) \<and>
      js_le (Num 0) (availableQuantity a) \<and> js_le (availableQuantity a) (productQuantity a))"

text \<open>
  What the handlers do not check: that a quantity sent by the client is a whole number
  and not negative, that an approval finds a unit in stock, and that a return finds a
  unit out.
\<close>

definition quantity_ok :: "asset_body \<Rightarrow> bool" where
  "quantity_ok body =
     (ab_productQuantity body = JUndefined \<or>
      (whole_number (to_number (ab_productQuantity body)) \<and>
       js_le (Num 0) (to_number (ab_productQuantity body))))"

definition referenced_asset :: "oid option \<Rightarrow> string \<Rightarrow> db \<Rightarrow> asset option" where
  "referenced_asset idp st d =
     (case idp of
        None \<Rightarrow> None
      | Some rid \<Rightarrow>
          (case findOne (requestsCol d) rid of
             None \<Rightarrow> None
           | Some request \<Rightarrow>
               if requestStatus request \<noteq> st then None
               else (case assetId request of
                       None \<Rightarrow> None
                     | Some aid \<Rightarrow> findOne (assetsCol d) aid)))"

fun permitted :: "fault \<times> op \<Rightarrow> db \<Rightarrow> bool" where
  "permitted (flt, AddAsset now newId body) d = quantity_ok body"
| "permitted (flt, UpdateAsset idp body) d = quantity_ok body"
| "permitted (flt, Approve now idp) d =
     (case referenced_asset idp ''pending'' d of
        None \<Rightarrow> True
      | Some a \<Rightarrow> js_less (Num 0) (availableQuantity a))"
| "permitted (flt, Return now idp) d =
     (case referenced_asset idp ''approved'' d of
        None \<Rightarrow> True
      | Some a \<Rightarrow> js_less (availableQuantity a) (productQuantity a))"
| "permitted (flt, _) d = True"

fun permitted_run :: "(fault \<times> op) list \<Rightarrow> db \<Rightarrow> bool" where
  "permitted_run [] d = True"
| "permitted_run (x # xs) d = (permitted x d \<and> permitted_run xs (exec x d))"

section \<open>Registration\<close>

text \<open>
  \<^verbatim>\<open>app.post('/auth/register/employee', ...)\<close>, lines 139 to 169, and
  \<^verbatim>\<open>app.post('/auth/register/hr', ...)\<close>, lines 102 to 135: the only handlers that
  insert a user; the argument \<open>rl\<close> is the role that the handler writes. The password
  hash and the fields that no query of this theory reads are left out of the user
  document. A rejected driver call answers 500 and changes nothing; it is left out.
\<close>

record register_body =
  reg_name :: "string option"
  reg_email :: "string option"
  reg_password :: "string option"
  reg_companyName :: "string option"
  reg_companyLogo :: "string option"
  reg_dateOfBirth :: "string option"

text \<open>\<^verbatim>\<open>usersCol.findOne({ email })\<close>: the first user with that email, or null.\<close>

definition findOne_email :: "user collection \<Rightarrow> string \<Rightarrow> user option" where
  "findOne_email col em =
     (case find_docs col (\<lambda>u. email u = em) of [] \<Rightarrow> None | u # _ \<Rightarrow> Some u)"

definition register_user :: "string \<Rightarrow> oid \<Rightarrow> register_body \<Rightarrow> db \<Rightarrow> db \<times> reply" where
  "register_user rl newId body d =
     (if \<not> truthy (reg_name body) \<or> \<not> truthy (reg_email body) \<or>
         \<not> truthy (reg_password body) \<or>
         (rl = ''hr'' \<and> (\<not> truthy (reg_companyName body) \<or> \<not> truthy (reg_companyLogo body)))
      then (d, Reply 400 ''All fields required'')
      else
        (case findOne_email (usersCol d) (or_default (reg_email body) []) of
           Some exist \<Rightarrow> (d, Reply 400 ''Email already exists'')
         | None \<Rightarrow>
             (case insertOne (usersCol d) newId
                     \<lparr>name = or_default (reg_name body) [],
                      email = or_default (reg_email body) [],
                      role = rl,
                      profileImage = None,
                      dateOfBirth = reg_dateOfBirth body,
                      position = None\<rparr>
              of
                None \<Rightarrow> (d, server_error)
              | Some col \<Rightarrow>
                  (d\<lparr>usersCol := col\<rparr>,
                   Inserted 201
                     (if rl = ''hr'' then ''HR Registered''
                      else ''Employee Registered, waiting approval'') newId))))"

section \<open>The team of one company\<close>

text \<open>
  What one round of the team loop reads and pushes for a company: its approved requests,
  and the team made of the users whose email is among the requesters.
\<close>

definition company_requests :: "db \<Rightarrow> string \<Rightarrow> request list" where
  "company_requests d c =
     find_docs (requestsCol d) (\<lambda>r. companyName r = c \<and> requestStatus r = ''approved'')"

definition company_team :: "db \<Rightarrow> string \<Rightarrow> team" where
  "company_team d c =
     \<lparr>team_companyName = c,
      colleagues =
        map project
          (find_docs (usersCol d)
             (\<lambda>u. email u \<in> set (new_Set (map requesterEmail (company_requests d c)))))\<rparr>"

section \<open>Example documents\<close>

definition ex_asset :: "rat \<Rightarrow> rat \<Rightarrow> asset" where
  "ex_asset tot avail =
     \<lparr>productName = ''Laptop'', productImage = ''laptop.png'', productType = ''Returnable'',
      productQuantity = Num tot, availableQuantity = Num avail, dateAdded = 1,
      asset_hrEmail = Some ''hr@acme.test'', asset_companyName = ''Acme''\<rparr>"

definition ex_request :: "oid \<Rightarrow> string \<Rightarrow> string \<Rightarrow> request" where
  "ex_request aid who st =
     \<lparr>assetId = Some aid, assetName = Some ''Laptop'', assetType = Some ''Returnable'',
      hrEmail = Some ''hr@acme.test'', companyName = ''Acme'', requesterName = None,
      requesterEmail = who, assetImage = None, requestDate = 2, approvalDate = None,
      requestStatus = st, note_text = [], processedBy = None, returnDate = None\<rparr>"

definition ex_user :: "string \<Rightarrow> string \<Rightarrow> user" where
  "ex_user nm em =
     \<lparr>name = nm, email = em, role = ''employee'', profileImage = None,
      dateOfBirth = None, position = None\<rparr>"

definition ex_db :: "asset collection \<Rightarrow> request collection \<Rightarrow> db" where
  "ex_db as rs = \<lparr>usersCol = [], assetsCol = as, requestsCol = rs\<rparr>"

definition ex_asset_body :: "rat \<Rightarrow> asset_body" where
  "ex_asset_body q =
     \<lparr>ab_productName = Some ''Laptop'', ab_productImage = Some ''laptop.png'',
      ab_productType = Some ''Returnable'', ab_productQuantity = JNum (Num q),
      ab_hrEmail = Some ''hr@acme.test'', ab_companyName = Some ''Acme''\<rparr>"

definition ex_request_body :: "oid \<Rightarrow> string \<Rightarrow> request_body" where
  "ex_request_body aid who =
     \<lparr>rb_assetId = Valid aid, rb_assetName = Some ''Laptop'',
      rb_assetType = Some ''Returnable'', rb_companyName = Some ''Acme'',
      rb_hrEmail = Some ''hr@acme.test'', rb_requesterName = None,
      rb_requesterEmail = Some who, rb_note = None, rb_assetImage = None\<rparr>"

definition ex_register_body :: "string \<Rightarrow> string \<Rightarrow> register_body" where
  "ex_register_body nm em =
     \<lparr>reg_name = Some nm, reg_email = Some em, reg_password = Some ''secret'',
      reg_companyName = None, reg_companyLogo = None, reg_dateOfBirth = None\<rparr>"

definition ex_team_db :: db where
  "ex_team_db =
     \<lparr>usersCol = [(1, ex_user ''Eve'' ''eve@acme.test''), (2, ex_user ''Bob'' ''bob@acme.test'')],
      assetsCol = [],
      requestsCol =
        [(10, ex_request 1 ''eve@acme.test'' ''approved''),
         (11, ex_request 2 ''eve@acme.test'' ''approved''),
         (12, ex_request 1 ''bob@acme.test'' ''approved''),
         (13, ex_request 1 ''carol@acme.test'' ''pending'')]\<rparr>"

section \<open>Facts about collections\<close>

lemma findOne_updateOne_same:
  "findOne col i = Some x \<Longrightarrow> findOne (updateOne col i u) i = Some (u x)"
  by (induction col) (auto simp: findOne_def)

lemma findOne_updateOne_other:
  "j \<noteq> i \<Longrightarrow> findOne (updateOne col i u) j = findOne col j"
  by (induction col) (auto simp: findOne_def)

lemma updateOne_absent:
  "findOne col i = None \<Longrightarrow> updateOne col i u = col"
  by (induction col) (auto simp: findOne_def split: if_splits)

section \<open>Approval and the stock of the asset\<close>

text \<open>
  Claim C1, as the code has it. The approve handler has no stock check and no
  \<open>InsufficientInventory\<close> outcome: approving a pending request whose asset has available
  quantity 0 answers 200, marks the request approved (approval date and processor set)
  and takes the available quantity to -1.
\<close>

theorem approve_zero_available:
  assumes "findOne (requestsCol d) rid = Some request"
    and "requestStatus request = ''pending''"
    and "assetId request = Some aid"
    and "findOne (assetsCol d) aid = Some a"
    and "availableQuantity a = Num 0"
  shows "snd (approve_request None now (Some rid) d) = Reply 200 ''Request approved'' \<and>
         findOne (requestsCol (fst (approve_request None now (Some rid) d))) rid =
           Some (request\<lparr>requestStatus := ''approved'', approvalDate := Some now,
                         processedBy := Some ''HR''\<rparr>) \<and>
         findOne (assetsCol (fst (approve_request None now (Some rid) d))) aid =
           Some (a\<lparr>availableQuantity := Num (- 1)\<rparr>)"
  using assms by (simp add: approve_request_def findOne_updateOne_same)

theorem approve_zero_available_witness:
  "snd (approve_request None 9 (Some 10)
          (ex_db [(1, ex_asset 3 0)] [(10, ex_request 1 ''eve@acme.test'' ''pending'')])) =
     Reply 200 ''Request approved'' \<and>
   map_option availableQuantity
     (findOne (assetsCol (fst (approve_request None 9 (Some 10)
        (ex_db [(1, ex_asset 3 0)] [(10, ex_request 1 ''eve@acme.test'' ''pending'')])))) 1) =
     Some (Num (- 1))"
  using approve_zero_available
    [of "ex_db [(1, ex_asset 3 0)] [(10, ex_request 1 ''eve@acme.test'' ''pending'')]"
        10 "ex_request 1 ''eve@acme.test'' ''pending''" 1 "ex_asset 3 0" 9]
  by (simp add: findOne_def ex_db_def ex_asset_def ex_request_def)

text \<open>
  Claim C1 as stated fails: on a store with one asset (total 1, available 0) and one
  pending request for it, the approve call answers 200, the request is approved and the
  available quantity is -1.
\<close>

theorem approve_zero_available_counterexample:
  "findOne (assetsCol (ex_db [(1, ex_asset 1 0)]
        [(10, ex_request 1 ''eve@acme.test'' ''pending'')])) 1 = Some (ex_asset 1 0) \<and>
   approve_request None 9 (Some 10)
     (ex_db [(1, ex_asset 1 0)] [(10, ex_request 1 ''eve@acme.test'' ''pending'')]) =
   (ex_db [(1, ex_asset 1 (- 1))]
      [(10, (ex_request 1 ''eve@acme.test'' ''approved'')
              \<lparr>approvalDate := Some 9, processedBy := Some ''HR''\<rparr>)],
    Reply 200 ''Request approved'')"
  by (simp add: approve_request_def findOne_def ex_db_def ex_asset_def ex_request_def)

text \<open>
  Claim C10. Approving a pending request whose asset document is gone answers 200 and
  marks the request approved, with approval date and processor; the asset collection is
  left as it was.
\<close>

theorem approve_deleted_asset:
  assumes "findOne (requestsCol d) rid = Some request"
    and "requestStatus request = ''pending''"
    and "assetId request = Some aid"
    and "findOne (assetsCol d) aid = None"
  shows "snd (approve_request None now (Some rid) d) = Reply 200 ''Request approved'' \<and>
         findOne (requestsCol (fst (approve_request None now (Some rid) d))) rid =
           Some (request\<lparr>requestStatus := ''approved'', approvalDate := Some now,
                         processedBy := Some ''HR''\<rparr>) \<and>
         assetsCol (fst (approve_request None now (Some rid) d)) = assetsCol d"
  using assms by (simp add: approve_request_def findOne_updateOne_same updateOne_absent)

theorem approve_deleted_asset_witness:
  "approve_request None 9 (Some 10)
     (ex_db [(2, ex_asset 3 3)] [(10, ex_request 1 ''eve@acme.test'' ''pending'')]) =
   (ex_db [(2, ex_asset 3 3)]
      [(10, (ex_request 1 ''eve@acme.test'' ''approved'')
              \<lparr>approvalDate := Some 9, processedBy := Some ''HR''\<rparr>)],
    Reply 200 ''Request approved'')"
  using approve_deleted_asset
    [of "ex_db [(2, ex_asset 3 3)] [(10, ex_request 1 ''eve@acme.test'' ''pending'')]"
        10 "ex_request 1 ''eve@acme.test'' ''pending''" 1 9]
  by (simp add: approve_request_def findOne_def ex_db_def ex_asset_def ex_request_def)

section \<open>Approval without compensation; rejection\<close>




text \<open>
  Claim C5. A reject call, whatever it answers and whichever driver call fails, leaves
  the asset collection (and the users) unchanged. When it does not answer 200 the whole
  store is unchanged. When it answers 200 the request was pending, and now has status
  rejected, the approval date and the processor set, its other fields as before; every
  other request is as before.
\<close>

theorem reject_frame:
  "assetsCol (fst (reject_request flt now idp d)) = assetsCol d \<and>
   usersCol (fst (reject_request flt now idp d)) = usersCol d \<and>
   (status (snd (reject_request flt now idp d)) \<noteq> 200 \<longrightarrow>
      fst (reject_request flt now idp d) = d) \<and>
   (status (snd (reject_request flt now idp d)) = 200 \<longrightarrow>
      (\<exists>rid request. idp = Some rid \<and> findOne (requestsCol d) rid = Some request \<and>
         requestStatus request = ''pending'' \<and>
         findOne (requestsCol (fst (reject_request flt now idp d))) rid =
           Some (request\<lparr>requestStatus := ''rejected'', approvalDate := Some now,
                         processedBy := Some ''HR''\<rparr>) \<and>
         (\<forall>j. j \<noteq> rid \<longrightarrow>
            findOne (requestsCol (fst (reject_request flt now idp d))) j =
            findOne (requestsCol d) j)))"
  by (auto simp: reject_request_def server_error_def findOne_updateOne_same
        findOne_updateOne_other split: option.splits if_splits)

theorem reject_frame_witness:
  "reject_request None 9 (Some 10)
     (ex_db [(1, ex_asset 3 0)] [(10, ex_request 1 ''eve@acme.test'' ''pending'')]) =
   (ex_db [(1, ex_asset 3 0)]
      [(10, (ex_request 1 ''eve@acme.test'' ''rejected'')
              \<lparr>approvalDate := Some 9, processedBy := Some ''HR''\<rparr>)],
    Reply 200 ''Request rejected'') \<and>
   reject_request None 9 (Some 10)
     (ex_db [(1, ex_asset 3 2)] [(10, ex_request 1 ''eve@acme.test'' ''approved'')]) =
   (ex_db [(1, ex_asset 3 2)] [(10, ex_request 1 ''eve@acme.test'' ''approved'')],
    Reply 400 ''Request already processed'')"
  using reject_frame
    [of None 9 "Some 10" "ex_db [(1, ex_asset 3 0)] [(10, ex_request 1 ''eve@acme.test'' ''pending'')]"]
    reject_frame
    [of None 9 "Some 10" "ex_db [(1, ex_asset 3 2)] [(10, ex_request 1 ''eve@acme.test'' ''approved'')]"]
  by (simp add: reject_request_def findOne_def ex_db_def ex_asset_def ex_request_def)

section \<open>Returning an asset; creating a request\<close>



text \<open>Three steps of one return call, with nothing in between, are the return handler.\<close>

lemma return_steps_sequential:
  "return_step t (Ret_Loading idp) d = (p1, d1) \<Longrightarrow> return_step t p1 d1 = (p2, d2) \<Longrightarrow>
   return_step t p2 d2 = (p3, d3) \<Longrightarrow>
   p3 = Ret_Replied (snd (return_asset None t idp d)) \<and> d3 = fst (return_asset None t idp d)"
  by (auto simp: return_step_def return_asset_def Let_def split: option.splits if_splits)


text \<open>
  Claim C7. Returning an approved Returnable request whose asset document is gone
  answers 200 and marks the request returned with the return date; the asset collection
  is left as it was.
\<close>

theorem return_deleted_asset:
  assumes "findOne (requestsCol d) rid = Some request"
    and "requestStatus request = ''approved''"
    and "assetType request = Some ''Returnable''"
    and "assetId request = Some aid"
    and "findOne (assetsCol d) aid = None"
  shows "snd (return_asset None now (Some rid) d) = Reply 200 ''Asset returned'' \<and>
         findOne (requestsCol (fst (return_asset None now (Some rid) d))) rid =
           Some (request\<lparr>requestStatus := ''returned'', returnDate := Some now\<rparr>) \<and>
         assetsCol (fst (return_asset None now (Some rid) d)) = assetsCol d"
  using assms
  by (simp add: return_asset_def Let_def findOne_updateOne_same updateOne_absent)

theorem return_deleted_asset_witness:
  "return_asset None 9 (Some 10)
     (ex_db [] [(10, ex_request 1 ''eve@acme.test'' ''approved'')]) =
   (ex_db [] [(10, (ex_request 1 ''eve@acme.test'' ''returned'')\<lparr>returnDate := Some 9\<rparr>)],
    Reply 200 ''Asset returned'')"
  using return_deleted_asset
    [of "ex_db [] [(10, ex_request 1 ''eve@acme.test'' ''approved'')]" 10
        "ex_request 1 ''eve@acme.test'' ''approved''" 1 9]
  by (simp add: return_asset_def findOne_def ex_db_def ex_asset_def ex_request_def)

text \<open>
  Claim C8, as the code has it. The create handler never reads the asset collection: with
  a well-formed asset id, a requester email and a fresh document id it answers 201 and
  stores a request, whatever the asset collection holds. The request's asset name, type,
  image and company are the client's body fields (the company defaulting to Unknown
  Company, the image to null); the status is pending, the request date is the server's
  clock, the approval date and the processor are null.
\<close>

theorem create_request_from_body:
  assumes "rb_assetId body = Valid aid"
    and "truthy (rb_requesterEmail body)"
    and "newId \<notin> fst ` set (requestsCol d)"
  shows "create_request None now newId body d =
           (d\<lparr>requestsCol := requestsCol d @ [(newId, requestDoc now aid body)]\<rparr>,
            Inserted 201 ''Request created'' newId) \<and>
         create_request None now newId body (d\<lparr>assetsCol := as\<rparr>) =
           (d\<lparr>assetsCol := as,
              requestsCol := requestsCol d @ [(newId, requestDoc now aid body)]\<rparr>,
            Inserted 201 ''Request created'' newId) \<and>
         assetId (requestDoc now aid body) = Some aid \<and>
         assetName (requestDoc now aid body) = rb_assetName body \<and>
         assetType (requestDoc now aid body) = rb_assetType body \<and>
         assetImage (requestDoc now aid body) = or_null (rb_assetImage body) \<and>
         companyName (requestDoc now aid body) =
           or_default (rb_companyName body) ''Unknown Company'' \<and>
         requestStatus (requestDoc now aid body) = ''pending'' \<and>
         requestDate (requestDoc now aid body) = now \<and>
         approvalDate (requestDoc now aid body) = None \<and>
         processedBy (requestDoc now aid body) = None"
  using assms by (simp add: create_request_def insertOne_def requestDoc_def)

theorem create_request_from_body_witness:
  "create_request None 5 10 (ex_request_body 1 ''eve@acme.test'') (ex_db [(1, ex_asset 3 3)] []) =
     (ex_db [(1, ex_asset 3 3)] [(10, (ex_request 1 ''eve@acme.test'' ''pending'')\<lparr>requestDate := 5\<rparr>)],
      Inserted 201 ''Request created'' 10)"
  using create_request_from_body
    [of "ex_request_body 1 ''eve@acme.test''" 1 10 "ex_db [(1, ex_asset 3 3)] []" 5]
  by (simp add: create_request_def insertOne_def requestDoc_def ex_request_body_def ex_db_def
        ex_request_def truthy_def or_null_def or_default_def)

text \<open>
  Claim C8 as stated fails: the body names asset 7, which the store does not hold, and
  calls it a Non-returnable Yacht of Globex; the call answers 201 and stores the request
  with the body's name, type and company.
\<close>

theorem create_request_from_body_counterexample:
  "create_request None 5 10
     ((ex_request_body 7 ''eve@acme.test'')
        \<lparr>rb_assetName := Some ''Yacht'', rb_assetType := Some ''Non-returnable'',
         rb_companyName := Some ''Globex''\<rparr>)
     (ex_db [(1, ex_asset 3 3)] []) =
   (ex_db [(1, ex_asset 3 3)]
      [(10, (ex_request 7 ''eve@acme.test'' ''pending'')
              \<lparr>assetName := Some ''Yacht'', assetType := Some ''Non-returnable'',
               companyName := ''Globex'', requestDate := 5\<rparr>)],
    Inserted 201 ''Request created'' 10) \<and>
   findOne (assetsCol (ex_db [(1, ex_asset 3 3)] [])) 7 = None"
  by (simp add: create_request_def insertOne_def requestDoc_def ex_request_body_def ex_db_def
        ex_request_def ex_asset_def truthy_def or_null_def or_default_def findOne_def)

section \<open>Two approvals of one request\<close>

text \<open>
  Three steps of one call, with nothing in between, are the approve handler.
\<close>

lemma approve_steps_sequential:
  "approve_step t (Loading idp) d = (p1, d1) \<Longrightarrow> approve_step t p1 d1 = (p2, d2) \<Longrightarrow>
   approve_step t p2 d2 = (p3, d3) \<Longrightarrow>
   p3 = Replied (snd (approve_request None t idp d)) \<and> d3 = fst (approve_request None t idp d)"
  by (auto simp: approve_step_def approve_request_def split: option.splits if_splits)





section \<open>The inventory invariant\<close>

lemma list_all_updateOne:
  assumes "list_all (\<lambda>(i, a). P a) col"
    and "\<And>x. findOne col i = Some x \<Longrightarrow> P x \<Longrightarrow> P (u x)"
  shows "list_all (\<lambda>(i, a). P a) (updateOne col i u)"
  using assms by (induction col) (auto simp: findOne_def split: if_splits)

lemma list_all_deleteOne:
  "list_all Q col \<Longrightarrow> list_all Q (deleteOne col i)"
  by (induction col) auto

text \<open>The invariant on whole quantities is \<open>stock_ok\<close> of every asset.\<close>

lemma stock_ok_all:
  "(qty_inv d \<and> whole_quantities d) = list_all (\<lambda>(i, a). stock_ok a) (assetsCol d)"
  by (auto simp: qty_inv_def whole_quantities_def stock_ok_def list_all_iff)

lemma whole_pos_ge_one:
  fixes q :: rat
  assumes "of_int \<lfloor>q\<rfloor> = q" and "0 < q"
  shows "1 \<le> q"
proof -
  have "(0::rat) < of_int \<lfloor>q\<rfloor>" by (simp only: assms)
  then have "0 < \<lfloor>q\<rfloor>" by (simp only: of_int_0_less_iff)
  then show ?thesis by (simp only: zero_less_floor)
qed

lemma whole_less_succ:
  fixes p q :: rat
  assumes "of_int \<lfloor>p\<rfloor> = p" and "of_int \<lfloor>q\<rfloor> = q" and "p < q"
  shows "p + 1 \<le> q"
proof -
  have "of_int \<lfloor>p\<rfloor> < (of_int \<lfloor>q\<rfloor> :: rat)" by (simp only: assms)
  then have "\<lfloor>p\<rfloor> < \<lfloor>q\<rfloor>" by (simp only: of_int_less_iff)
  then have "\<lfloor>p\<rfloor> + 1 \<le> \<lfloor>q\<rfloor>" by linarith
  then have "(of_int (\<lfloor>p\<rfloor> + 1) :: rat) \<le> of_int \<lfloor>q\<rfloor>" by (simp only: of_int_le_iff)
  then have "(of_int \<lfloor>p\<rfloor> :: rat) + 1 \<le> of_int \<lfloor>q\<rfloor>" by simp
  then show ?thesis by (simp only: assms)
qed

lemma stock_ok_decrement:
  assumes "stock_ok a" and "js_less (Num 0) (availableQuantity a)"
  shows "stock_ok (a\<lparr>availableQuantity := js_add (availableQuantity a) (- 1)\<rparr>)"
proof (cases "availableQuantity a")
  case (Num q)
  with assms have w: "of_int \<lfloor>q\<rfloor> = q" and pos: "0 < q" and up: "q \<le> 9007199254740991"
    by (simp_all add: stock_ok_def whole_number_def)
  from w pos have "1 \<le> q" by (rule whole_pos_ge_one)
  with assms(1) Num w up show ?thesis
    by (cases "productQuantity a") (simp_all add: stock_ok_def whole_number_def)
qed (use assms in \<open>simp_all add: stock_ok_def whole_number_def\<close>)

lemma stock_ok_increment:
  assumes "stock_ok a" and "js_less (availableQuantity a) (productQuantity a)"
  shows "stock_ok (a\<lparr>availableQuantity := js_add (availableQuantity a) 1\<rparr>)"
proof (cases "availableQuantity a")
  case av: (Num p)
  show ?thesis
  proof (cases "productQuantity a")
    case (Num q)
    with av assms have wp: "of_int \<lfloor>p\<rfloor> = p" and wq: "of_int \<lfloor>q\<rfloor> = q" and lt: "p < q"
      and lo: "0 \<le> p" and up: "q \<le> 9007199254740991"
      by (simp_all add: stock_ok_def whole_number_def)
    from wp wq lt have "p + 1 \<le> q" by (rule whole_less_succ)
    with assms(1) av Num wp lo up show ?thesis
      by (simp add: stock_ok_def whole_number_def)
  qed (use assms av in \<open>simp_all add: stock_ok_def whole_number_def\<close>)
qed (use assms in \<open>simp_all add: stock_ok_def whole_number_def\<close>)

lemma stock_ok_set_update:
  "quantity_ok body \<Longrightarrow> stock_ok a \<Longrightarrow> stock_ok (set_update body a)"
  by (cases "to_number (ab_productQuantity body)")
     (auto simp: set_update_def quantity_ok_def stock_ok_def whole_number_def Let_def)

lemma stock_add_asset:
  assumes "list_all (\<lambda>(i, a). stock_ok a) (assetsCol d)"
    and "permitted (flt, AddAsset now newId body) d"
  shows "list_all (\<lambda>(i, a). stock_ok a) (assetsCol (fst (add_asset flt now newId body d)))"
  using assms
  by (cases "to_number (ab_productQuantity body)")
     (auto simp: add_asset_def quantity_ok_def stock_ok_def whole_number_def insertOne_def
        Let_def split: option.splits if_splits)

lemma stock_update_asset:
  assumes "list_all (\<lambda>(i, a). stock_ok a) (assetsCol d)"
    and "permitted (flt, UpdateAsset idp body) d"
  shows "list_all (\<lambda>(i, a). stock_ok a) (assetsCol (fst (update_asset flt idp body d)))"
  using assms
  by (auto simp: update_asset_def Let_def stock_ok_set_update
        intro!: list_all_updateOne split: option.splits)

lemma stock_delete_asset:
  "list_all (\<lambda>(i, a). stock_ok a) (assetsCol d) \<Longrightarrow>
   list_all (\<lambda>(i, a). stock_ok a) (assetsCol (fst (delete_asset flt idp d)))"
  by (auto simp: delete_asset_def Let_def list_all_deleteOne split: option.splits)

lemma stock_create_request:
  "list_all (\<lambda>(i, a). stock_ok a) (assetsCol d) \<Longrightarrow>
   list_all (\<lambda>(i, a). stock_ok a) (assetsCol (fst (create_request flt now newId body d)))"
  by (auto simp: create_request_def split: option.splits idparam.splits)

lemma stock_reject_request:
  "list_all (\<lambda>(i, a). stock_ok a) (assetsCol d) \<Longrightarrow>
   list_all (\<lambda>(i, a). stock_ok a) (assetsCol (fst (reject_request flt now idp d)))"
  by (auto simp: reject_request_def split: option.splits)

lemma stock_approve_request:
  assumes "list_all (\<lambda>(i, a). stock_ok a) (assetsCol d)"
    and "permitted (flt, Approve now idp) d"
  shows "list_all (\<lambda>(i, a). stock_ok a) (assetsCol (fst (approve_request flt now idp d)))"
  using assms
  by (auto simp: approve_request_def referenced_asset_def stock_ok_decrement
        intro!: list_all_updateOne split: option.splits if_splits)

lemma stock_return_asset:
  assumes "list_all (\<lambda>(i, a). stock_ok a) (assetsCol d)"
    and "permitted (flt, Return now idp) d"
  shows "list_all (\<lambda>(i, a). stock_ok a) (assetsCol (fst (return_asset flt now idp d)))"
  using assms
  by (auto simp: return_asset_def referenced_asset_def Let_def stock_ok_increment
        intro!: list_all_updateOne split: option.splits if_splits)

lemma stock_exec:
  assumes "list_all (\<lambda>(i, a). stock_ok a) (assetsCol d)" and "permitted x d"
  shows "list_all (\<lambda>(i, a). stock_ok a) (assetsCol (exec x d))"
proof (cases x)
  case (Pair flt o1)
  with assms show ?thesis
    by (cases o1)
      (simp_all add: stock_add_asset stock_update_asset stock_delete_asset
        stock_create_request stock_reject_request stock_approve_request
        stock_return_asset del: permitted.simps)
qed

lemma stock_run:
  "list_all (\<lambda>(i, a). stock_ok a) (assetsCol d) \<Longrightarrow> permitted_run ops d \<Longrightarrow>
   list_all (\<lambda>(i, a). stock_ok a) (assetsCol (run ops d))"
  by (induction ops arbitrary: d) (simp_all add: stock_exec)

text \<open>
  Claim C2, as the code has it. The handlers check neither that a quantity is a whole
  number, nor its sign, nor the stock. On a store whose quantities are whole numbers, the
  invariant \<open>0 \<le> available \<le> total\<close> holds for every asset after a sequence of operations
  (with or without storage faults) when it held before and every step was permitted at
  its moment: a quantity sent on creation or update is a whole number, not negative and
  below \<open>2^53\<close>; an approval of a pending request finds its asset with a unit available; a
  return of an approved request finds its asset with a unit out. Rejection, deletion and
  the creation of a request are always permitted. The quantities are whole numbers
  afterwards too.
\<close>

theorem quantity_invariant_run:
  assumes "qty_inv d" and "whole_quantities d" and "permitted_run ops d"
  shows "qty_inv (run ops d) \<and> whole_quantities (run ops d)"
proof -
  from assms(1,2) have "list_all (\<lambda>(i, a). stock_ok a) (assetsCol d)"
    by (simp add: stock_ok_all [symmetric])
  then have "list_all (\<lambda>(i, a). stock_ok a) (assetsCol (run ops d))"
    using assms(3) by (rule stock_run)
  then show ?thesis by (simp add: stock_ok_all [symmetric])
qed

theorem quantity_invariant_run_witness:
  "qty_inv (run [(None, AddAsset 1 1 (ex_asset_body 2)),
                 (None, CreateRequest 2 10 (ex_request_body 1 ''eve@acme.test'')),
                 (None, Approve 3 (Some 10)),
                 (None, Return 4 (Some 10))]
              \<lparr>usersCol = [], assetsCol = [], requestsCol = []\<rparr>) \<and>
   map (\<lambda>(i, a). (i, productQuantity a, availableQuantity a))
     (assetsCol (run [(None, AddAsset 1 1 (ex_asset_body 2)),
                 (None, CreateRequest 2 10 (ex_request_body 1 ''eve@acme.test'')),
                 (None, Approve 3 (Some 10)),
                 (None, Return 4 (Some 10))]
              \<lparr>usersCol = [], assetsCol = [], requestsCol = []\<rparr>)) = [(1, Num 2, Num 2)]"
proof -
  have run_eq:
    "run [(None, AddAsset 1 1 (ex_asset_body 2)),
          (None, CreateRequest 2 10 (ex_request_body 1 ''eve@acme.test'')),
          (None, Approve 3 (Some 10)),
          (None, Return 4 (Some 10))]
       \<lparr>usersCol = [], assetsCol = [], requestsCol = []\<rparr> =
     \<lparr>usersCol = [], assetsCol = [(1, ex_asset 2 2)],
      requestsCol = [(10, (ex_request 1 ''eve@acme.test'' ''returned'')
         \<lparr>approvalDate := Some 3, processedBy := Some ''HR'', returnDate := Some 4\<rparr>)]\<rparr>"
    by (simp add: add_asset_def create_request_def approve_request_def return_asset_def
          insertOne_def findOne_def requestDoc_def ex_asset_body_def ex_request_body_def
          ex_asset_def ex_request_def truthy_def or_null_def or_default_def Let_def)
  have start: "qty_inv \<lparr>usersCol = [], assetsCol = [], requestsCol = []\<rparr>"
    and whole: "whole_quantities \<lparr>usersCol = [], assetsCol = [], requestsCol = []\<rparr>"
    by (simp_all add: qty_inv_def whole_quantities_def)
  have ok: "permitted_run [(None, AddAsset 1 1 (ex_asset_body 2)),
          (None, CreateRequest 2 10 (ex_request_body 1 ''eve@acme.test'')),
          (None, Approve 3 (Some 10)),
          (None, Return 4 (Some 10))]
       \<lparr>usersCol = [], assetsCol = [], requestsCol = []\<rparr>"
    by (simp add: add_asset_def create_request_def approve_request_def return_asset_def
          insertOne_def findOne_def requestDoc_def ex_asset_body_def ex_request_body_def
          ex_asset_def ex_request_def truthy_def or_null_def or_default_def Let_def
          quantity_ok_def whole_number_def referenced_asset_def)
  from quantity_invariant_run [OF start whole ok] show ?thesis
    unfolding run_eq by (simp add: ex_asset_def)
qed

text \<open>
  Claim C2 as stated fails. One unit and two approved requests: available is -1. One
  unit approved, the asset's quantity updated to 1 (which resets available to 1), then
  the unit returned: available is 2 of a total of 1. Half a unit created and one request
  approved: available is -1/2.
\<close>

theorem quantity_invariant_counterexample:
  "map (\<lambda>(i, a). (i, productQuantity a, availableQuantity a))
     (assetsCol (run [(None, AddAsset 1 1 (ex_asset_body 1)),
                 (None, CreateRequest 2 10 (ex_request_body 1 ''eve@acme.test'')),
                 (None, CreateRequest 3 11 (ex_request_body 1 ''bob@acme.test'')),
                 (None, Approve 4 (Some 10)),
                 (None, Approve 5 (Some 11))]
              \<lparr>usersCol = [], assetsCol = [], requestsCol = []\<rparr>)) = [(1, Num 1, Num (- 1))] \<and>
   map (\<lambda>(i, a). (i, productQuantity a, availableQuantity a))
     (assetsCol (run [(None, AddAsset 1 1 (ex_asset_body 1)),
                 (None, CreateRequest 2 10 (ex_request_body 1 ''eve@acme.test'')),
                 (None, Approve 3 (Some 10)),
                 (None, UpdateAsset (Some 1) (ex_asset_body 1)),
                 (None, Return 4 (Some 10))]
              \<lparr>usersCol = [], assetsCol = [], requestsCol = []\<rparr>)) = [(1, Num 1, Num 2)] \<and>
   map (\<lambda>(i, a). (i, productQuantity a, availableQuantity a))
     (assetsCol (run [(None, AddAsset 1 1 (ex_asset_body (1 / 2))),
                 (None, CreateRequest 2 10 (ex_request_body 1 ''eve@acme.test'')),
                 (None, Approve 3 (Some 10))]
              \<lparr>usersCol = [], assetsCol = [], requestsCol = []\<rparr>)) =
     [(1, Num (1 / 2), Num (- (1 / 2)))]"
  by (simp add: add_asset_def create_request_def approve_request_def return_asset_def
        update_asset_def set_update_def matchedCount_def
        insertOne_def findOne_def requestDoc_def ex_asset_body_def ex_request_body_def
        ex_asset_def ex_request_def truthy_def or_null_def or_default_def Let_def)

section \<open>The team query\<close>

text \<open>
  A \<^verbatim>\<open>Set\<close> built from a list has the list's elements, each once.
\<close>

lemma set_foldl_set_add: "set (foldl set_add acc xs) = set acc \<union> set xs"
  by (induction xs arbitrary: acc) (auto simp: set_add_def)

lemma distinct_foldl_set_add: "distinct acc \<Longrightarrow> distinct (foldl set_add acc xs)"
  by (induction xs arbitrary: acc) (auto simp: set_add_def)

lemma set_new_Set: "set (new_Set xs) = set xs"
  by (simp add: new_Set_def set_foldl_set_add)

lemma distinct_new_Set: "distinct (new_Set xs)"
  by (simp add: new_Set_def distinct_foldl_set_add)

text \<open>
  Without a fault the loop pushes one team for each company of the set that has an
  approved request, in the order of the set.
\<close>

lemma team_loop_closed:
  "team_loop None d cs teams =
     Inr (teams @ map (company_team d) (filter (\<lambda>c. company_requests d c \<noteq> []) cs))"
  by (induction cs arbitrary: teams)
     (simp_all add: Let_def company_team_def company_requests_def)

lemma filter_eq_distinct:
  "distinct xs \<Longrightarrow> x \<in> set xs \<Longrightarrow> filter (\<lambda>y. y = x) xs = [x]"
  by (induction xs) (auto simp: filter_empty_conv)

lemma teams_of_company:
  "filter (\<lambda>t. team_companyName t = c) (map (company_team d) cs) =
     map (company_team d) (filter (\<lambda>y. y = c) cs)"
  by (induction cs) (auto simp: company_team_def)

lemma colleagues_company_team:
  "colleagues (company_team d c) =
     map project
       (filter
          (\<lambda>u. email u \<in> requesterEmail `
             {x \<in> snd ` set (requestsCol d).
                companyName x = c \<and> requestStatus x = ''approved''})
          (map snd (usersCol d)))"
proof -
  have "set (company_requests d c) =
      {x \<in> snd ` set (requestsCol d). companyName x = c \<and> requestStatus x = ''approved''}"
    by (auto simp: company_requests_def find_docs_def)
  then show ?thesis
    by (simp add: company_team_def find_docs_def set_new_Set)
qed

lemma names_company_team: "map team_companyName (map (company_team d) cs) = cs"
  by (induction cs) (simp_all add: company_team_def)

lemma p_email_project: "map p_email (map project us) = map email us"
  by (simp add: project_def)

lemma count_in_team:
  "length (filter (\<lambda>p. p_email p = x) (map project (filter (\<lambda>u. email u \<in> S) us))) =
     (if x \<in> S then length (filter (\<lambda>u. email u = x) us) else 0)"
  by (induction us) (auto simp: project_def)

lemma count_distinct_email:
  "distinct (map email us) \<Longrightarrow> x \<in> email ` set us \<Longrightarrow>
   length (filter (\<lambda>u. email u = x) us) = 1"
proof (induction us)
  case Nil
  then show ?case by simp
next
  case (Cons u us)
  show ?case
  proof (cases "email u = x")
    case True
    with Cons.prems have "x \<notin> email ` set us" by auto
    then have "filter (\<lambda>u. email u = x) us = []" by (auto simp: filter_empty_conv)
    with True show ?thesis by simp
  next
    case False
    with Cons show ?thesis by auto
  qed
qed

lemma count_absent_email:
  "x \<notin> email ` set us \<Longrightarrow> filter (\<lambda>u. email u = x) us = []"
  by (auto simp: filter_empty_conv)

text \<open>A request is stored with a company name that is not empty.\<close>

lemma requestDoc_companyName_nonempty: "companyName (requestDoc now aid body) \<noteq> []"
  by (simp add: requestDoc_def or_default_def split: option.splits)

text \<open>
  Registration refuses an email that a user already has, so registrations that run one
  after the other keep the emails of the users pairwise different.
\<close>

lemma findOne_email_None:
  "findOne_email col em = None \<Longrightarrow> em \<notin> email ` snd ` set col"
  by (auto simp: findOne_email_def find_docs_def filter_empty_conv split: list.splits)

lemma register_user_distinct_emails:
  assumes "distinct (map email (map snd (usersCol d)))"
  shows "distinct (map email (map snd (usersCol (fst (register_user rl newId body d)))))"
  using assms
  by (auto simp: register_user_def insertOne_def dest!: findOne_email_None
        split: option.splits if_splits)

text \<open>
  Claim C9, as the code has it. Let \<open>e\<close> and \<open>f\<close> each be the requester of an approved
  request at the company \<open>c\<close> (a stored company name is never empty). The team query for
  \<open>e\<close> answers a list of teams, no company twice, with exactly one team for \<open>c\<close>. The
  colleague list of a team is made of user documents, not of requesters: it is the
  profile of every user whose email is the requester of an approved request at the team's
  company, in the order of the users, one entry for each user document however many
  approved requests there are. So \<open>e\<close> and \<open>f\<close> each occur as
  often as there are user documents with their email: once when they are registered and
  the users' emails are pairwise different (no email occurs twice then), and not at all
  when they are not registered.
\<close>

theorem my_team_single_group:
  assumes e_req: "(i, r) \<in> set (requestsCol d)" "requesterEmail r = e"
      "requestStatus r = ''approved''" "companyName r = c" "c \<noteq> []"
    and f_req: "(j, q) \<in> set (requestsCol d)" "requesterEmail q = f"
      "requestStatus q = ''approved''" "companyName q = c"
  shows "\<exists>ts g. my_team None e d = Inr ts \<and>
           distinct (map team_companyName ts) \<and>
           (\<forall>t \<in> set ts.
              colleagues t =
                map project
                  (filter
                     (\<lambda>u. email u \<in> requesterEmail `
                        {x \<in> snd ` set (requestsCol d).
                           companyName x = team_companyName t \<and>
                           requestStatus x = ''approved''})
                     (map snd (usersCol d)))) \<and>
           filter (\<lambda>t. team_companyName t = c) ts = [g] \<and>
           colleagues g =
             map project
               (filter
                  (\<lambda>u. email u \<in> requesterEmail `
                     {x \<in> snd ` set (requestsCol d).
                        companyName x = c \<and> requestStatus x = ''approved''})
                  (map snd (usersCol d))) \<and>
           length (filter (\<lambda>p. p_email p = e) (colleagues g)) =
             length (filter (\<lambda>u. email u = e) (map snd (usersCol d))) \<and>
           length (filter (\<lambda>p. p_email p = f) (colleagues g)) =
             length (filter (\<lambda>u. email u = f) (map snd (usersCol d))) \<and>
           (distinct (map email (map snd (usersCol d))) \<longrightarrow>
              distinct (map p_email (colleagues g)) \<and>
              (e \<in> email ` snd ` set (usersCol d) \<longrightarrow>
                 length (filter (\<lambda>p. p_email p = e) (colleagues g)) = 1) \<and>
              (f \<in> email ` snd ` set (usersCol d) \<longrightarrow>
                 length (filter (\<lambda>p. p_email p = f) (colleagues g)) = 1)) \<and>
           (e \<notin> email ` snd ` set (usersCol d) \<longrightarrow>
              filter (\<lambda>p. p_email p = e) (colleagues g) = []) \<and>
           (f \<notin> email ` snd ` set (usersCol d) \<longrightarrow>
              filter (\<lambda>p. p_email p = f) (colleagues g) = [])"
proof -
  let ?mine = "find_docs (requestsCol d) (\<lambda>r. requesterEmail r = e \<and> requestStatus r = ''approved'')"
  let ?cs = "new_Set (map (\<lambda>req. if companyName req \<noteq> [] then companyName req
                                          else ''Unknown Company'') ?mine)"
  let ?S = "requesterEmail `
              {x \<in> snd ` set (requestsCol d). companyName x = c \<and> requestStatus x = ''approved''}"
  let ?us = "map snd (usersCol d)"
  let ?g = "company_team d c"
  have r_mine: "r \<in> set ?mine"
    using e_req by (force simp: find_docs_def)
  then have nonempty: "length ?mine \<noteq> 0" by auto
  have c_in: "c \<in> set ?cs"
    using r_mine e_req(4,5) by (force simp: set_new_Set)
  have comp: "set (company_requests d c) =
      {x \<in> snd ` set (requestsCol d). companyName x = c \<and> requestStatus x = ''approved''}"
    by (auto simp: company_requests_def find_docs_def)
  have r_comp: "r \<in> set (company_requests d c)"
    using e_req by (force simp: company_requests_def find_docs_def)
  have q_comp: "q \<in> set (company_requests d c)"
    using f_req by (force simp: company_requests_def find_docs_def)
  have c_ne: "company_requests d c \<noteq> []" using r_comp by auto
  have eS: "e \<in> ?S" using r_comp e_req(2) unfolding comp by blast
  have fS: "f \<in> ?S" using q_comp f_req(2) unfolding comp by blast
  have res: "my_team None e d =
      Inr (map (company_team d) (filter (\<lambda>c. company_requests d c \<noteq> []) ?cs))"
    using nonempty by (simp add: my_team_def Let_def team_loop_closed)
  have "filter (\<lambda>y. y = c) (filter (\<lambda>c. company_requests d c \<noteq> []) ?cs) = [c]"
    using c_in c_ne by (intro filter_eq_distinct) (simp_all add: distinct_new_Set)
  then have one: "filter (\<lambda>t. team_companyName t = c)
      (map (company_team d) (filter (\<lambda>c. company_requests d c \<noteq> []) ?cs)) = [?g]"
    by (simp add: teams_of_company)
  have cols: "colleagues ?g = map project (filter (\<lambda>u. email u \<in> ?S) ?us)"
    by (rule colleagues_company_team)
  have ce: "length (filter (\<lambda>p. p_email p = e) (colleagues ?g)) =
      length (filter (\<lambda>u. email u = e) ?us)"
    unfolding cols using eS by (simp only: count_in_team if_True)
  have cf: "length (filter (\<lambda>p. p_email p = f) (colleagues ?g)) =
      length (filter (\<lambda>u. email u = f) ?us)"
    unfolding cols using fS by (simp only: count_in_team if_True)
  have dist: "distinct (map p_email (colleagues ?g))" if "distinct (map email ?us)"
    unfolding cols p_email_project using that by (rule distinct_map_filter)
  have once: "length (filter (\<lambda>u. email u = x) ?us) = 1"
    if "distinct (map email ?us)" and "x \<in> email ` snd ` set (usersCol d)" for x
    using that by (intro count_distinct_email) (auto simp: image_image)
  have none: "filter (\<lambda>p. p_email p = x) (colleagues ?g) = []"
    if "x \<notin> email ` snd ` set (usersCol d)" for x
    unfolding cols using that by (auto simp: filter_empty_conv project_def)
  let ?ts = "map (company_team d) (filter (\<lambda>c. company_requests d c \<noteq> []) ?cs)"
  show ?thesis
  proof (intro exI [of _ ?ts] exI [of _ ?g] conjI impI ballI)
    show "my_team None e d = Inr ?ts" by (rule res)
    show "distinct (map team_companyName ?ts)"
      by (simp only: names_company_team distinct_filter distinct_new_Set)
  next
    fix t
    assume "t \<in> set ?ts"
    then obtain c' where t: "t = company_team d c'" by auto
    have "team_companyName (company_team d c') = c'" by (simp add: company_team_def)
    with t show "colleagues t =
        map project
          (filter
             (\<lambda>u. email u \<in> requesterEmail `
                {x \<in> snd ` set (requestsCol d).
                   companyName x = team_companyName t \<and> requestStatus x = ''approved''})
             ?us)"
      by (simp only: colleagues_company_team)
  next
    show "filter (\<lambda>t. team_companyName t = c) ?ts = [?g]" by (rule one)
    show "colleagues ?g = map project (filter (\<lambda>u. email u \<in> ?S) ?us)" by (rule cols)
    show "length (filter (\<lambda>p. p_email p = e) (colleagues ?g)) =
        length (filter (\<lambda>u. email u = e) ?us)" by (rule ce)
    show "length (filter (\<lambda>p. p_email p = f) (colleagues ?g)) =
        length (filter (\<lambda>u. email u = f) ?us)" by (rule cf)
  next
    assume "distinct (map email ?us)"
    then show "distinct (map p_email (colleagues ?g))" by (rule dist)
  next
    assume "distinct (map email ?us)" and "e \<in> email ` snd ` set (usersCol d)"
    then have "length (filter (\<lambda>u. email u = e) ?us) = 1" by (rule once)
    with ce show "length (filter (\<lambda>p. p_email p = e) (colleagues ?g)) = 1" by simp
  next
    assume "distinct (map email ?us)" and "f \<in> email ` snd ` set (usersCol d)"
    then have "length (filter (\<lambda>u. email u = f) ?us) = 1" by (rule once)
    with cf show "length (filter (\<lambda>p. p_email p = f) (colleagues ?g)) = 1" by simp
  next
    assume "e \<notin> email ` snd ` set (usersCol d)"
    then show "filter (\<lambda>p. p_email p = e) (colleagues ?g) = []" by (rule none)
  next
    assume "f \<notin> email ` snd ` set (usersCol d)"
    then show "filter (\<lambda>p. p_email p = f) (colleagues ?g) = []" by (rule none)
  qed
qed

theorem my_team_single_group_witness:
  "distinct (map email (map snd (usersCol ex_team_db))) \<and>
   ''eve@acme.test'' \<in> email ` snd ` set (usersCol ex_team_db) \<and>
   ''bob@acme.test'' \<in> email ` snd ` set (usersCol ex_team_db) \<and>
   my_team None ''eve@acme.test'' ex_team_db =
     Inr [\<lparr>team_companyName = ''Acme'',
           colleagues = [project (ex_user ''Eve'' ''eve@acme.test''),
                         project (ex_user ''Bob'' ''bob@acme.test'')]\<rparr>]"
proof -
  have u1: "distinct (map email (map snd (usersCol ex_team_db)))"
    and u2: "''eve@acme.test'' \<in> email ` snd ` set (usersCol ex_team_db)"
    and u3: "''bob@acme.test'' \<in> email ` snd ` set (usersCol ex_team_db)"
    by (simp_all add: ex_team_db_def ex_user_def)
  have h1: "(10, ex_request 1 ''eve@acme.test'' ''approved'') \<in> set (requestsCol ex_team_db)"
    and h2: "(12, ex_request 1 ''bob@acme.test'' ''approved'') \<in> set (requestsCol ex_team_db)"
    by (simp_all add: ex_team_db_def)
  have f1: "requesterEmail (ex_request 1 ''eve@acme.test'' ''approved'') = ''eve@acme.test''"
    and f2: "requestStatus (ex_request 1 ''eve@acme.test'' ''approved'') = ''approved''"
    and f3: "companyName (ex_request 1 ''eve@acme.test'' ''approved'') = ''Acme''"
    and f4: "''Acme'' \<noteq> []"
    and g1: "requesterEmail (ex_request 1 ''bob@acme.test'' ''approved'') = ''bob@acme.test''"
    and g2: "requestStatus (ex_request 1 ''bob@acme.test'' ''approved'') = ''approved''"
    and g3: "companyName (ex_request 1 ''bob@acme.test'' ''approved'') = ''Acme''"
    by (simp_all add: ex_request_def)
  from my_team_single_group [OF h1 f1 f2 f3 f4 h2 g1 g2 g3]
  obtain ts g where "my_team None ''eve@acme.test'' ex_team_db = Inr ts"
    and "filter (\<lambda>t. team_companyName t = ''Acme'') ts = [g]"
    by blast
  moreover have "my_team None ''eve@acme.test'' ex_team_db =
     Inr [\<lparr>team_companyName = ''Acme'',
           colleagues = [project (ex_user ''Eve'' ''eve@acme.test''),
                         project (ex_user ''Bob'' ''bob@acme.test'')]\<rparr>]"
    by (simp add: my_team_def find_docs_def new_Set_def set_add_def ex_team_db_def
          ex_request_def ex_user_def Let_def)
  ultimately show ?thesis using u1 u2 u3 by simp
qed

text \<open>
  Claim C9 as stated fails. The create handler takes any requester email: Bob registers,
  Eve does not; both request asset 1 at Acme and both requests are approved. Eve's team
  for Acme holds Bob alone.
\<close>

theorem my_team_unregistered_counterexample:
  "my_team None ''eve@acme.test''
     (run [(None, CreateRequest 2 10 (ex_request_body 1 ''eve@acme.test'')),
           (None, CreateRequest 3 11 (ex_request_body 1 ''bob@acme.test'')),
           (None, Approve 4 (Some 10)),
           (None, Approve 5 (Some 11))]
        (fst (register_user ''employee'' 2 (ex_register_body ''Bob'' ''bob@acme.test'')
                \<lparr>usersCol = [], assetsCol = [], requestsCol = []\<rparr>))) =
   Inr [\<lparr>team_companyName = ''Acme'',
         colleagues = [project (ex_user ''Bob'' ''bob@acme.test'')]\<rparr>]"
  by (simp add: my_team_def find_docs_def new_Set_def set_add_def register_user_def
        findOne_email_def create_request_def approve_request_def insertOne_def findOne_def
        requestDoc_def ex_register_body_def ex_request_body_def ex_user_def truthy_def
        or_null_def or_default_def Let_def)

end
